theory Spec2Isabelle
  imports Main "HOL-Library.AList"
begin

text \<open>
  A model of \<^verbatim>\<open>convert.py\<close>, the script that decodes the \<^verbatim>\<open>.wem\<close> assets below
  \<^verbatim>\<open>txtp/wem\<close> into a staging folder, renames the staged \<^verbatim>\<open>.wav\<close> files after the
  \<^verbatim>\<open>.txtp\<close> reference files that name them, and retries the decodes that failed. Each
  function of the script is a function on an explicit state; a call that may raise returns
  a value of a sum type.
\<close>

section \<open>Strings and paths\<close>

text \<open>
  The script \<^verbatim>\<open>convert.py\<close> works on Python strings and on \<^verbatim>\<open>pathlib\<close> paths.
  A path is modelled by its \<^verbatim>\<open>parts\<close>, as \<^verbatim>\<open>pathlib.PurePosixPath\<close> computes them:
  the components between the separators, with empty components and \<^verbatim>\<open>.\<close> dropped, and a
  leading component \<^verbatim>\<open>/\<close> for an absolute path.
\<close>

type_synonym path = "string list"

text \<open>\<^verbatim>\<open>s.split(c)\<close> with an explicit separator: empty fields are kept.\<close>

fun split_on :: "char \<Rightarrow> string \<Rightarrow> string list" where
  "split_on c [] = [[]]"
| "split_on c (x # xs) =
     (if x = c then [] # split_on c xs
      else (case split_on c xs of [] \<Rightarrow> [[x]] | w # ws \<Rightarrow> (x # w) # ws))"

text \<open>\<^verbatim>\<open>s.startswith(p)\<close>.\<close>

definition startswith :: "string \<Rightarrow> string \<Rightarrow> bool" where
  "startswith s p = (take (length p) s = p)"

text \<open>\<^verbatim>\<open>s.endswith(p)\<close>.\<close>

definition endswith :: "string \<Rightarrow> string \<Rightarrow> bool" where
  "endswith s p = (length p \<le> length s \<and> drop (length s - length p) s = p)"

text \<open>\<^verbatim>\<open>Path(s)\<close>.\<close>

definition Path :: "string \<Rightarrow> path" where
  "Path s = (if startswith s ''/'' then [''/''] else []) @
            filter (\<lambda>c. c \<noteq> [] \<and> c \<noteq> ''.'') (split_on CHR ''/'' s)"

text \<open>\<^verbatim>\<open>p / s\<close> for a path \<^verbatim>\<open>p\<close> and a string \<^verbatim>\<open>s\<close>: an absolute \<^verbatim>\<open>s\<close> replaces \<^verbatim>\<open>p\<close>.\<close>

definition joinpath :: "path \<Rightarrow> string \<Rightarrow> path" where
  "joinpath p s = (if startswith s ''/'' then Path s else p @ Path s)"

text \<open>\<^verbatim>\<open>p.name\<close>: the last component, empty for the empty path and for the root.\<close>

definition name :: "path \<Rightarrow> string" where
  "name p = (if p = [] \<or> p = [''/''] then [] else last p)"

text \<open>
  \<^verbatim>\<open>p.suffix\<close> and \<^verbatim>\<open>p.stem\<close> of a final component \<^verbatim>\<open>n\<close>, as CPython up to 3.13 defines them:
  with \<^verbatim>\<open>i = n.rfind('.')\<close>, the suffix is \<^verbatim>\<open>n[i:]\<close> and the stem \<^verbatim>\<open>n[:i]\<close> when
  \<^verbatim>\<open>0 < i < len(n) - 1\<close>; otherwise the suffix is empty and the stem is \<^verbatim>\<open>n\<close>.
  \<open>after_dot n\<close> is the number of characters behind the last dot.
\<close>

definition after_dot :: "string \<Rightarrow> nat" where
  "after_dot n = length (takeWhile (\<lambda>c. c \<noteq> CHR ''.'') (rev n))"

definition has_suffix :: "string \<Rightarrow> bool" where
  "has_suffix n = (CHR ''.'' \<in> set n \<and> 0 < after_dot n \<and> Suc (after_dot n) < length n)"

definition suffix_of :: "string \<Rightarrow> string" where
  "suffix_of n = (if has_suffix n then drop (length n - Suc (after_dot n)) n else [])"

definition stem_of :: "string \<Rightarrow> string" where
  "stem_of n = (if has_suffix n then take (length n - Suc (after_dot n)) n else n)"

definition suffix :: "path \<Rightarrow> string" where
  "suffix p = suffix_of (name p)"

definition stem :: "path \<Rightarrow> string" where
  "stem p = stem_of (name p)"

text \<open>\<^verbatim>\<open>s.lower()\<close> on ASCII letters.\<close>

definition lower_char :: "char \<Rightarrow> char" where
  "lower_char c = (let k = (of_char c :: nat) in if 65 \<le> k \<and> k \<le> 90 then char_of (k + 32) else c)"

definition lower :: "string \<Rightarrow> string" where
  "lower s = map lower_char s"

text \<open>\<^verbatim>\<open>str(i)\<close> for a non-negative integer: its decimal digits.\<close>

definition digit_char :: "nat \<Rightarrow> char" where
  "digit_char d = char_of (48 + d)"

function str_nat :: "nat \<Rightarrow> string" where
  "str_nat n = (if n < 10 then [digit_char n] else str_nat (n div 10) @ [digit_char (n mod 10)])"
  by pat_completeness auto
termination
  by (relation "measure id") auto

declare str_nat.simps [simp del]

text \<open>\<^verbatim>\<open>str(p)\<close> for a path: the parts joined by the separator.\<close>

fun join_parts :: "string list \<Rightarrow> string" where
  "join_parts [] = []"
| "join_parts [c] = c"
| "join_parts (c # d # ds) = c @ ''/'' @ join_parts (d # ds)"

definition str_path :: "path \<Rightarrow> string" where
  "str_path p = (case p of [] \<Rightarrow> ''.''
                 | c # cs \<Rightarrow> if c = ''/'' then ''/'' @ join_parts cs else join_parts p)"

text \<open>
  \<^verbatim>\<open>s.strip()\<close>: ASCII white space is removed at both ends (space, tab, line feed,
  vertical tab, form feed, carriage return and the four separators 28 to 31).
\<close>

definition is_space :: "char \<Rightarrow> bool" where
  "is_space c = (let k = (of_char c :: nat) in k = 32 \<or> (9 \<le> k \<and> k \<le> 13) \<or> (28 \<le> k \<and> k \<le> 31))"

definition strip :: "string \<Rightarrow> string" where
  "strip s = rev (dropWhile is_space (rev (dropWhile is_space s)))"

section \<open>The file system\<close>

text \<open>
  The working directory is a tree: a regular file with its content, or a directory with its
  entries in the order in which the operating system lists them. Paths are resolved from the
  working directory; absolute paths and \<^verbatim>\<open>..\<close> lead outside the tree and name nothing in it.
\<close>

datatype node = File string | Dir "(string \<times> node) list"

fun lookup :: "node \<Rightarrow> path \<Rightarrow> node option" where
  "lookup n [] = Some n"
| "lookup (File c) (x # xs) = None"
| "lookup (Dir es) (x # xs) = (case map_of es x of None \<Rightarrow> None | Some n \<Rightarrow> lookup n xs)"

text \<open>\<^verbatim>\<open>p.exists()\<close>.\<close>

definition exists :: "node \<Rightarrow> path \<Rightarrow> bool" where
  "exists t p = (lookup t p \<noteq> None)"

text \<open>
  \<^verbatim>\<open>p.mkdir(parents=True, exist_ok=True)\<close>: the missing directories along \<^verbatim>\<open>p\<close> are created;
  the call raises (\<open>None\<close>) when a component of \<^verbatim>\<open>p\<close> is a regular file.
\<close>

fun mkdir_p :: "path \<Rightarrow> node \<Rightarrow> node option" where
  "mkdir_p [] (Dir es) = Some (Dir es)"
| "mkdir_p [] (File c) = None"
| "mkdir_p (x # xs) (File c) = None"
| "mkdir_p (x # xs) (Dir es) =
     (case mkdir_p xs (case map_of es x of None \<Rightarrow> Dir [] | Some n \<Rightarrow> n) of
        None \<Rightarrow> None
      | Some n' \<Rightarrow> Some (Dir (AList.update x n' es)))"

text \<open>
  Placing a node at a path whose parent directory exists. A regular file replaces a regular
  file; anything else at an occupied path fails, as does a missing parent.
\<close>

fun put :: "path \<Rightarrow> node \<Rightarrow> node \<Rightarrow> node option" where
  "put [] new t = None"
| "put (x # xs) new (File c) = None"
| "put [x] new (Dir es) =
     (case (map_of es x, new) of
        (None, _) \<Rightarrow> Some (Dir (AList.update x new es))
      | (Some (File _), File _) \<Rightarrow> Some (Dir (AList.update x new es))
      | _ \<Rightarrow> None)"
| "put (x # y # ys) new (Dir es) =
     (case map_of es x of
        None \<Rightarrow> None
      | Some n \<Rightarrow> (case put (y # ys) new n of
                    None \<Rightarrow> None
                  | Some n' \<Rightarrow> Some (Dir (AList.update x n' es))))"

text \<open>Removing the entry at a path, with everything below it.\<close>

fun remove :: "path \<Rightarrow> node \<Rightarrow> node" where
  "remove [] t = t"
| "remove (x # xs) (File c) = File c"
| "remove [x] (Dir es) = Dir (AList.delete x es)"
| "remove (x # y # ys) (Dir es) =
     (case map_of es x of
        None \<Rightarrow> Dir es
      | Some n \<Rightarrow> Dir (AList.update x (remove (y # ys) n) es))"

text \<open>\<^verbatim>\<open>shutil.rmtree(p)\<close>: raises unless \<^verbatim>\<open>p\<close> is a directory.\<close>

definition rmtree :: "path \<Rightarrow> node \<Rightarrow> node option" where
  "rmtree p t = (case lookup t p of Some (Dir _) \<Rightarrow> Some (remove p t) | _ \<Rightarrow> None)"

text \<open>
  \<^verbatim>\<open>shutil.copy2(src, dst)\<close>: the source must be a regular file; a destination that is a
  directory receives the file under the source's name.
\<close>

definition copy2 :: "path \<Rightarrow> path \<Rightarrow> node \<Rightarrow> node option" where
  "copy2 src dst t =
     (case lookup t src of
        Some (File c) \<Rightarrow>
          (case lookup t dst of
             Some (Dir _) \<Rightarrow> put (dst @ [name src]) (File c) t
           | _ \<Rightarrow> put dst (File c) t)
      | _ \<Rightarrow> None)"

text \<open>
  \<^verbatim>\<open>shutil.move(src, dst)\<close>: a destination that is a directory receives the source under
  the source's name, unless that name is taken there; otherwise the source is renamed.
\<close>

definition move :: "path \<Rightarrow> path \<Rightarrow> node \<Rightarrow> node option" where
  "move src dst t =
     (case lookup t src of
        None \<Rightarrow> None
      | Some n \<Rightarrow>
          (case lookup t dst of
             Some (Dir _) \<Rightarrow>
               (if exists t (dst @ [name src]) then None
                else map_option (remove src) (put (dst @ [name src]) n t))
           | _ \<Rightarrow> map_option (remove src) (put dst n t)))"

text \<open>The content of a regular file, as \<^verbatim>\<open>open(p).read()\<close> returns it; \<open>None\<close> when it raises.\<close>

definition read_text :: "node \<Rightarrow> path \<Rightarrow> string option" where
  "read_text t p = (case lookup t p of Some (File c) \<Rightarrow> Some c | _ \<Rightarrow> None)"

text \<open>
  \<^verbatim>\<open>os.walk(top)\<close>: top-down, each directory with the names of its entries that are not
  directories, then its subdirectories in listing order. Nothing is yielded when \<^verbatim>\<open>top\<close>
  is not a directory.
\<close>

fun is_dir :: "node \<Rightarrow> bool" where
  "is_dir (Dir es) = True"
| "is_dir (File c) = False"

fun walk_node :: "path \<Rightarrow> node \<Rightarrow> (path \<times> string list) list" where
  "walk_node d (File c) = []"
| "walk_node d (Dir es) =
     (d, map fst (filter (\<lambda>e. \<not> is_dir (snd e)) es)) #
     concat (map (\<lambda>e. walk_node (d @ [fst e]) (snd e)) es)"

definition os_walk :: "node \<Rightarrow> path \<Rightarrow> (path \<times> string list) list" where
  "os_walk t d = (case lookup t d of None \<Rightarrow> [] | Some n \<Rightarrow> walk_node d n)"

section \<open>The run state\<close>

text \<open>
  The lines that the script writes to \<^verbatim>\<open>conversion_main.log\<close>, one constructor for each
  message of the source, with the paths the message names.
\<close>

datatype event =
    SkippingExisting path path
  | Converting path path
  | ConversionFailed path
  | Converted path
  | UsingExisting path path
  | CopyFailed path
  | ReadFailed path
  | SkippingRenamed path
  | Renamed path path
  | RenameFailed path
  | NotFound path
  | NoFailedConversions
  | RetryingFailed
  | RetrySkippingExisting path
  | Retrying path path
  | FailedSecondTime path
  | ConvertedOnRetry path
  | StartingConversion
  | StartingRenaming
  | TempDeleted path
  | Summary int int int int

datatype error = OSError | SystemExit

text \<open>
  The state that the script reads and writes: the file tree, the four global counters, the
  lines of the failure ledger \<^verbatim>\<open>conversion_errors.log\<close> (\<open>None\<close> when the file is absent),
  the main log, and the record of the Decoder invocations made so far as pairs of output
  path and input path. The ledger is kept as the sequence of its lines: a message of the
  failure logger adds one line, truncation leaves none, and the byte offsets of the open
  streams are not part of the model. The two log files are kept apart from the file tree.
\<close>

record state =
  fs :: node
  total_wems :: int
  converted_count :: int
  skipped_count :: int
  failed_count :: int
  failed_log :: "string list option"
  main_log :: "event list"
  decoder_calls :: "(path \<times> path) list"

text \<open>
  The Decoder \<^verbatim>\<open>vgmstream-cli\<close> is an external program and a parameter of the model: from
  the number of its earlier invocations in this run, the file tree, the output path and the
  input path it gives its exit status and the file tree it leaves.
\<close>

type_synonym decoder = "nat \<Rightarrow> node \<Rightarrow> path \<Rightarrow> path \<Rightarrow> int \<times> node"

definition logging :: "event \<Rightarrow> state \<Rightarrow> state" where
  "logging e s = s\<lparr>main_log := main_log s @ [e]\<rparr>"

text \<open>\<^verbatim>\<open>failed_logger.error(msg)\<close>: one more line in the failure ledger.\<close>

definition failed_logger_error :: "string \<Rightarrow> state \<Rightarrow> state" where
  "failed_logger_error msg s = s\<lparr>failed_log := map_option (\<lambda>l. l @ [msg]) (failed_log s)\<rparr>"

text \<open>\<^verbatim>\<open>subprocess.run([VGMSTREAM, "-o", wav_path, wem_path])\<close>, with its exit status.\<close>

definition run_decoder :: "decoder \<Rightarrow> path \<Rightarrow> path \<Rightarrow> state \<Rightarrow> int \<times> state" where
  "run_decoder dec wav_path wem_path s =
     (case dec (length (decoder_calls s)) (fs s) wav_path wem_path of
        (rc, t) \<Rightarrow> (rc, s\<lparr>fs := t, decoder_calls := decoder_calls s @ [(wav_path, wem_path)]\<rparr>))"

section \<open>Step 1: \<^verbatim>\<open>wem_to_wav\<close>\<close>

definition digit_folder_of :: "path \<Rightarrow> path \<Rightarrow> string" where
  "digit_folder_of input_root folder_path =
     (if folder_path = input_root then ''root'' else name folder_path)"

text \<open>The local variables of the inner loop, for the file name \<open>file\<close> of a folder.\<close>

definition wav_name_of :: "string \<Rightarrow> string" where
  "wav_name_of file = stem (Path file) @ ''.wav''"

definition wem_path_of :: "path \<Rightarrow> string \<Rightarrow> path" where
  "wem_path_of folder_path file = joinpath folder_path file"

definition wav_path_of :: "path \<Rightarrow> string \<Rightarrow> path" where
  "wav_path_of temp_wem_root file = joinpath temp_wem_root (wav_name_of file)"

definition final_out_path_of :: "path \<Rightarrow> path \<Rightarrow> string \<Rightarrow> path" where
  "final_out_path_of input_root folder_path file =
     joinpath (joinpath (Path ''out'') (digit_folder_of input_root folder_path)) (wav_name_of file)"

text \<open>The body of the inner loop, for one file name of one folder.\<close>

definition process_file ::
  "decoder \<Rightarrow> path \<Rightarrow> path \<Rightarrow> path \<Rightarrow> string \<Rightarrow> (string \<rightharpoonup> string) \<times> state \<Rightarrow>
   (string \<rightharpoonup> string) \<times> state" where
  "process_file dec input_root temp_wem_root folder_path file ms =
     (case ms of (mapping, s) \<Rightarrow>
      let digit_folder = digit_folder_of input_root folder_path;
          ext = lower (suffix (Path file));
          wav_name = wav_name_of file;
          wem_path = wem_path_of folder_path file;
          wav_path = wav_path_of temp_wem_root file;
          mapping' = mapping(wav_name \<mapsto> digit_folder);
          final_out_path = final_out_path_of input_root folder_path file
      in
        if exists (fs s) wav_path \<or> exists (fs s) final_out_path then
          (mapping',
           logging (SkippingExisting wav_path final_out_path)
             (s\<lparr>skipped_count := skipped_count s + 1\<rparr>))
        else if ext = ''.wem'' then
          (case run_decoder dec wav_path wem_path (logging (Converting wem_path wav_path) s) of
             (returncode, s1) \<Rightarrow>
               if returncode \<noteq> 0 \<or> \<not> exists (fs s1) wav_path then
                 (mapping',
                  failed_logger_error (str_path wem_path)
                    (logging (ConversionFailed wem_path)
                       (s1\<lparr>failed_count := failed_count s1 + 1\<rparr>)))
               else
                 (mapping',
                  logging (Converted wem_path)
                    (s1\<lparr>converted_count := converted_count s1 + 1\<rparr>)))
        else if ext = ''.wav'' then
          (case copy2 wem_path wav_path (fs s) of
             Some t \<Rightarrow>
               (mapping',
                logging (UsingExisting wem_path wav_path)
                  (s\<lparr>fs := t, skipped_count := skipped_count s + 1\<rparr>))
           | None \<Rightarrow>
               (mapping',
                failed_logger_error (str_path wem_path)
                  (logging (CopyFailed wem_path)
                     (s\<lparr>failed_count := failed_count s + 1\<rparr>))))
        else (mapping', s))"

text \<open>
  The nested iteration runs over what \<^verbatim>\<open>os.walk\<close> yields: the pairs of a folder and a file
  name in it, in the order of the traversal.
\<close>

definition traversal :: "(path \<times> string list) list \<Rightarrow> (path \<times> string) list" where
  "traversal w = concat (map (\<lambda>(folder, files). map (\<lambda>file. (folder, file)) files) w)"

fun process_all ::
  "decoder \<Rightarrow> path \<Rightarrow> path \<Rightarrow> (path \<times> string) list \<Rightarrow> (string \<rightharpoonup> string) \<times> state \<Rightarrow>
   (string \<rightharpoonup> string) \<times> state" where
  "process_all dec input_root temp_wem_root [] ms = ms"
| "process_all dec input_root temp_wem_root ((folder, file) # rest) ms =
     process_all dec input_root temp_wem_root rest
       (process_file dec input_root temp_wem_root folder file ms)"

text \<open>
  The start of \<^verbatim>\<open>wem_to_wav\<close>: \<^verbatim>\<open>rmtree\<close> when the staging folder exists, then \<^verbatim>\<open>mkdir\<close>.
  Either call may raise.
\<close>

definition clean_temp :: "path \<Rightarrow> node \<Rightarrow> node option" where
  "clean_temp temp_wem_root t =
     (case (if exists t temp_wem_root then rmtree temp_wem_root t else Some t) of
        None \<Rightarrow> None
      | Some t1 \<Rightarrow> mkdir_p temp_wem_root t1)"

text \<open>
  The staging folder is wiped and made again, then every file of the input tree is
  processed. The traversal is read from the tree as it is when the loop starts: the Decoder
  and the copies write to the staging folder, which the driver keeps outside the input tree.
\<close>

definition wem_to_wav ::
  "decoder \<Rightarrow> path \<Rightarrow> path \<Rightarrow> state \<Rightarrow> error + ((string \<rightharpoonup> string) \<times> state)" where
  "wem_to_wav dec input_root temp_root s =
     (let temp_wem_root = joinpath temp_root ''wem'' in
      case clean_temp temp_wem_root (fs s) of
        None \<Rightarrow> Inl OSError
      | Some t2 \<Rightarrow>
          Inr (process_all dec input_root temp_wem_root
                 (traversal (os_walk t2 input_root)) (Map.empty, s\<lparr>fs := t2\<rparr>)))"

section \<open>Step 2: \<^verbatim>\<open>convert\<close>\<close>

text \<open>\<^verbatim>\<open>data.replace("\n", " ").split(" ")\<close>.\<close>

definition tokens_of :: "string \<Rightarrow> string list" where
  "tokens_of data = split_on CHR '' '' (map (\<lambda>c. if c = CHR 0x0A then CHR '' '' else c) data)"

text \<open>\<^verbatim>\<open>s.split(c)[0]\<close>.\<close>

definition first_field :: "char \<Rightarrow> string \<Rightarrow> string" where
  "first_field c s = (case split_on c s of [] \<Rightarrow> [] | w # ws \<Rightarrow> w)"

text \<open>The staged file, the category label and the destination that a token leads to.\<close>

definition wavname_of :: "path \<Rightarrow> string \<Rightarrow> path" where
  "wavname_of wav_root token = joinpath wav_root (stem (Path token) @ ''.wav'')"

definition label_of :: "(string \<rightharpoonup> string) \<Rightarrow> path \<Rightarrow> string \<Rightarrow> string" where
  "label_of mapping wav_root token =
     (case mapping (name (wavname_of wav_root token)) of None \<Rightarrow> ''unknown'' | Some d \<Rightarrow> d)"

definition out_folder_of :: "(string \<rightharpoonup> string) \<Rightarrow> path \<Rightarrow> path \<Rightarrow> string \<Rightarrow> path" where
  "out_folder_of mapping wav_root out_root token =
     joinpath out_root (label_of mapping wav_root token)"

definition new_name_of ::
  "string \<Rightarrow> (string \<rightharpoonup> string) \<Rightarrow> path \<Rightarrow> path \<Rightarrow> nat \<Rightarrow> string \<Rightarrow> path" where
  "new_name_of filename mapping wav_root out_root i token =
     joinpath (out_folder_of mapping wav_root out_root token)
       (first_field CHR ''.'' filename @ ''_'' @ str_nat i @ ''.wav'')"

text \<open>
  What the loop does for one audio reference, once the three paths are computed. Creating the
  destination folder is outside any \<^verbatim>\<open>try\<close>: when it raises, the exception leaves
  \<^verbatim>\<open>convert\<close>.
\<close>

definition relocate :: "path \<Rightarrow> path \<Rightarrow> path \<Rightarrow> state \<Rightarrow> error + state" where
  "relocate wavname out_folder new_name s =
     (case mkdir_p out_folder (fs s) of
        None \<Rightarrow> Inl OSError
      | Some t \<Rightarrow>
          (let s1 = s\<lparr>fs := t\<rparr> in
           if exists t new_name then Inr (logging (SkippingRenamed new_name) s1)
           else if exists t wavname then
             (case move wavname new_name t of
                Some t' \<Rightarrow> Inr (logging (Renamed wavname new_name) (s1\<lparr>fs := t'\<rparr>))
              | None \<Rightarrow> Inr (logging (RenameFailed wavname) s1))
           else Inr (logging (NotFound wavname) s1)))"

text \<open>The body of the loop over the tokens.\<close>

definition convert_token ::
  "string \<Rightarrow> path \<Rightarrow> path \<Rightarrow> (string \<rightharpoonup> string) \<Rightarrow> nat \<Rightarrow> string \<Rightarrow> state \<Rightarrow> error + state" where
  "convert_token filename wav_root out_root mapping i token s =
     (if startswith token ''wem'' then
        relocate (wavname_of wav_root token)
          (out_folder_of mapping wav_root out_root token)
          (new_name_of filename mapping wav_root out_root i token) s
      else Inr s)"

fun convert_tokens ::
  "string \<Rightarrow> path \<Rightarrow> path \<Rightarrow> (string \<rightharpoonup> string) \<Rightarrow> nat \<Rightarrow> string list \<Rightarrow> state \<Rightarrow> error + state" where
  "convert_tokens filename wav_root out_root mapping i [] s = Inr s"
| "convert_tokens filename wav_root out_root mapping i (token # rest) s =
     (case convert_token filename wav_root out_root mapping i token s of
        Inl e \<Rightarrow> Inl e
      | Inr s' \<Rightarrow> convert_tokens filename wav_root out_root mapping (Suc i) rest s')"

definition convert ::
  "string \<Rightarrow> path \<Rightarrow> path \<Rightarrow> (string \<rightharpoonup> string) \<Rightarrow> state \<Rightarrow> error + state" where
  "convert filename wav_root out_root mapping s =
     (let txtp_path = joinpath (Path ''txtp'') filename in
      case read_text (fs s) txtp_path of
        None \<Rightarrow> Inr (logging (ReadFailed txtp_path) s)
      | Some data \<Rightarrow> convert_tokens filename wav_root out_root mapping 0 (tokens_of data) s)"

section \<open>Step 3: \<^verbatim>\<open>retry_failed_conversions\<close>\<close>

text \<open>\<^verbatim>\<open>[line.strip() for line in f.readlines() if line.strip()]\<close>.\<close>

definition failed_files_of :: "string list \<Rightarrow> string list" where
  "failed_files_of ls = filter (\<lambda>l. l \<noteq> []) (map strip ls)"

definition retry_wav_path :: "path \<Rightarrow> string \<Rightarrow> path" where
  "retry_wav_path temp_wav_root wem_path_str =
     joinpath temp_wav_root (stem (Path wem_path_str) @ ''.wav'')"

text \<open>The body of the loop, on the state and the local counter \<^verbatim>\<open>new_failures\<close>.\<close>

definition retry_entry :: "decoder \<Rightarrow> path \<Rightarrow> string \<Rightarrow> state \<times> int \<Rightarrow> state \<times> int" where
  "retry_entry dec temp_wav_root wem_path_str sn =
     (case sn of (s, new_failures) \<Rightarrow>
      let wem_path = Path wem_path_str;
          wav_path = retry_wav_path temp_wav_root wem_path_str
      in
        if exists (fs s) wav_path then (logging (RetrySkippingExisting wav_path) s, new_failures)
        else
          (case run_decoder dec wav_path wem_path (logging (Retrying wem_path wav_path) s) of
             (returncode, s1) \<Rightarrow>
               if returncode \<noteq> 0 \<or> \<not> exists (fs s1) wav_path then
                 (failed_logger_error (str_path wem_path) (logging (FailedSecondTime wem_path) s1),
                  new_failures + 1)
               else
                 (logging (ConvertedOnRetry wem_path)
                    (s1\<lparr>converted_count := converted_count s1 + 1\<rparr>),
                  new_failures)))"

fun retry_all :: "decoder \<Rightarrow> path \<Rightarrow> string list \<Rightarrow> state \<times> int \<Rightarrow> state \<times> int" where
  "retry_all dec temp_wav_root [] sn = sn"
| "retry_all dec temp_wav_root (e # es) sn =
     retry_all dec temp_wav_root es (retry_entry dec temp_wav_root e sn)"

definition retry_failed_conversions :: "decoder \<Rightarrow> path \<Rightarrow> state \<Rightarrow> state" where
  "retry_failed_conversions dec temp_wav_root s =
     (case failed_log s of
        None \<Rightarrow> logging NoFailedConversions s
      | Some ls \<Rightarrow>
          (case retry_all dec temp_wav_root (failed_files_of ls)
                  ((logging RetryingFailed s)\<lparr>failed_log := Some []\<rparr>, 0) of
             (s', new_failures) \<Rightarrow> s'\<lparr>failed_count := new_failures\<rparr>))"

section \<open>The driver\<close>

text \<open>\<^verbatim>\<open>Path("txtp").glob("*.txtp")\<close>: the names of the entries that end in \<^verbatim>\<open>.txtp\<close>.\<close>

definition glob_txtp :: "node \<Rightarrow> string list" where
  "glob_txtp t =
     (case lookup t (Path ''txtp'') of
        Some (Dir es) \<Rightarrow> filter (\<lambda>n. endswith n ''.txtp'') (map fst es)
      | _ \<Rightarrow> [])"

fun convert_files ::
  "path \<Rightarrow> path \<Rightarrow> (string \<rightharpoonup> string) \<Rightarrow> string list \<Rightarrow> state \<Rightarrow> error + state" where
  "convert_files wav_root out_root mapping [] s = Inr s"
| "convert_files wav_root out_root mapping (f # rest) s =
     (case convert f wav_root out_root mapping s of
        Inl e \<Rightarrow> Inl e
      | Inr s' \<Rightarrow> convert_files wav_root out_root mapping rest s')"

text \<open>
  What the module does when it is loaded: both log files are opened for writing, the folders
  \<^verbatim>\<open>out\<close> and \<^verbatim>\<open>txtp/wem\<close> are made, the run ends when the Decoder is not installed, and the
  counters start at zero. The script is run from its own folder.
\<close>

definition fresh_state :: "node \<Rightarrow> state" where
  "fresh_state t = \<lparr>fs = t, total_wems = 0, converted_count = 0, skipped_count = 0,
                     failed_count = 0, failed_log = Some [], main_log = [],
                     decoder_calls = []\<rparr>"

definition startup :: "bool \<Rightarrow> node \<Rightarrow> error + state" where
  "startup vgmstream_exists t =
     (case mkdir_p (Path ''out'') t of
        None \<Rightarrow> Inl OSError
      | Some t1 \<Rightarrow>
          (case mkdir_p (joinpath (Path ''txtp'') ''wem'') t1 of
             None \<Rightarrow> Inl OSError
           | Some t2 \<Rightarrow>
               if \<not> vgmstream_exists then Inl SystemExit
               else Inr (fresh_state t2)))"

text \<open>\<^verbatim>\<open>p.parent\<close> of a relative path.\<close>

definition parent :: "path \<Rightarrow> path" where
  "parent p = butlast p"

definition driver :: "decoder \<Rightarrow> state \<Rightarrow> error + state" where
  "driver dec s0 =
     (let wem_root = Path ''txtp/wem'';
          wav_temp_root = joinpath (Path ''out_temp'') ''wem'';
          out_root = Path ''out''
      in case wem_to_wav dec wem_root (Path ''out_temp'') (logging StartingConversion s0) of
           Inl e \<Rightarrow> Inl e
         | Inr (mapping, s1) \<Rightarrow>
             (case convert_files wav_temp_root out_root mapping (glob_txtp (fs s1))
                     (logging StartingRenaming s1) of
                Inl e \<Rightarrow> Inl e
              | Inr s2 \<Rightarrow>
                  (let s3 = retry_failed_conversions dec wav_temp_root s2 in
                   case (if exists (fs s3) (parent wav_temp_root)
                         then map_option (\<lambda>t. logging (TempDeleted (parent wav_temp_root)) (s3\<lparr>fs := t\<rparr>))
                                (rmtree (parent wav_temp_root) (fs s3))
                         else Some s3) of
                     None \<Rightarrow> Inl OSError
                   | Some s4 \<Rightarrow>
                       Inr (logging (Summary (total_wems s4) (converted_count s4)
                                      (skipped_count s4) (failed_count s4)) s4))))"

definition main :: "decoder \<Rightarrow> bool \<Rightarrow> node \<Rightarrow> error + state" where
  "main dec vgmstream_exists t =
     (case startup vgmstream_exists t of Inl e \<Rightarrow> Inl e | Inr s0 \<Rightarrow> driver dec s0)"

section \<open>Reading the main log\<close>

text \<open>
  The paths that a stretch of the log reports as failed a second time, and those that it
  reports as converted on retry.
\<close>

definition failed_again :: "event list \<Rightarrow> path list" where
  "failed_again evs = concat (map (\<lambda>e. case e of FailedSecondTime p \<Rightarrow> [p] | _ \<Rightarrow> []) evs)"

definition converted_on_retry :: "event list \<Rightarrow> path list" where
  "converted_on_retry evs = concat (map (\<lambda>e. case e of ConvertedOnRetry p \<Rightarrow> [p] | _ \<Rightarrow> []) evs)"

section \<open>Example inputs\<close>

text \<open>
  Three Decoders: one that always writes its output file and exits with status 0, one that
  always exits with status 1 and writes nothing, and one that decodes a single input only.
\<close>

definition dec_ok :: decoder where
  "dec_ok k t out inp =
     (case put out (File (''decoded:'' @ str_path inp)) t of
        Some t' \<Rightarrow> (0, t')
      | None \<Rightarrow> (1, t))"

definition dec_fail :: decoder where
  "dec_fail k t out inp = (1, t)"


text \<open>
  A working directory with one source asset \<^verbatim>\<open>txtp/wem/a/1.wem\<close> and one reference file
  \<^verbatim>\<open>txtp/x.txtp\<close> that names it.
\<close>

definition tree0 :: node where
  "tree0 = Dir [(''txtp'', Dir [(''wem'', Dir [(''a'', Dir [(''1.wem'', File ''w1'')])]),
                                (''x.txtp'', File ''wem/1.wem'')])]"

text \<open>The same directory when the first run is over: the asset is at \<^verbatim>\<open>out/a/x_0.wav\<close>.\<close>

definition tree1 :: node where
  "tree1 = Dir [(''txtp'', Dir [(''wem'', Dir [(''a'', Dir [(''1.wem'', File ''w1'')])]),
                                (''x.txtp'', File ''wem/1.wem'')]),
                (''out'', Dir [(''a'', Dir [(''x_0.wav'', File ''decoded:txtp/wem/a/1.wem'')])])]"

text \<open>A staging folder that is empty, and one that holds \<^verbatim>\<open>1.wav\<close>.\<close>

definition tree_empty_staging :: node where
  "tree_empty_staging =
     Dir [(''txtp'', Dir [(''wem'', Dir [(''a'', Dir [(''1.wem'', File ''w1''),
                                                      (''notes.txt'', File ''n'')])])]),
          (''out_temp'', Dir [(''wem'', Dir [])])]"

definition tree_staged :: node where
  "tree_staged =
     Dir [(''txtp'', Dir [(''wem'', Dir [(''a'', Dir [(''1.wem'', File ''w1''),
                                                      (''1.txt'', File ''n'')])])]),
          (''out_temp'', Dir [(''wem'', Dir [(''1.wav'', File ''old'')])])]"

text \<open>
  A directory where \<^verbatim>\<open>1.wav\<close> is staged and the reference file \<^verbatim>\<open>txtp/x.txtp\<close> names it
  with its second token.
\<close>

definition tree_renaming :: node where
  "tree_renaming =
     Dir [(''txtp'', Dir [(''wem'', Dir [(''a'', Dir [(''1.wem'', File ''w1'')])]),
                          (''x.txtp'', File ''a wem/1.wem'')]),
          (''out_temp'', Dir [(''wem'', Dir [(''1.wav'', File ''d1'')])])]"

text \<open>Two source assets of the same stem in two subfolders.\<close>

definition tree_shared_stem :: node where
  "tree_shared_stem =
     Dir [(''txtp'', Dir [(''wem'', Dir [(''a'', Dir [(''1.wem'', File ''wa'')]),
                                         (''b'', Dir [(''1.wem'', File ''wb'')])])])]"



section \<open>Facts about strings and paths\<close>

lemma split_on_not_Nil: "split_on c s \<noteq> []"
  by (induction s) (auto split: list.splits)

lemma split_on_no_sep: "w \<in> set (split_on c s) \<Longrightarrow> c \<notin> set w"
  by (induction s arbitrary: w) (auto split: if_splits list.splits)

lemma split_on_absent: "c \<notin> set s \<Longrightarrow> split_on c s = [s]"
  by (induction s) auto

lemma first_field_takeWhile: "first_field c s = takeWhile (\<lambda>x. x \<noteq> c) s"
  by (induction s) (auto simp: first_field_def split: list.splits)

lemma Path_parts: "w \<in> set (Path s) \<Longrightarrow> w = ''/'' \<or> CHR ''/'' \<notin> set w"
  by (auto simp: Path_def dest: split_on_no_sep split: if_splits)

lemma name_Path_cases:
  "name (Path s) = [] \<or>
   name (Path s) \<in> set (filter (\<lambda>c. c \<noteq> [] \<and> c \<noteq> ''.'') (split_on CHR ''/'' s))"
proof (cases "filter (\<lambda>c. c \<noteq> [] \<and> c \<noteq> ''.'') (split_on CHR ''/'' s) = []")
  case True
  then show ?thesis by (simp add: name_def Path_def)
next
  case False
  from last_in_set [OF False] False show ?thesis
    by (simp add: name_def Path_def)
qed

lemma name_Path_no_slash: "CHR ''/'' \<notin> set (name (Path s))"
  using name_Path_cases [of s] by (auto dest: split_on_no_sep)

lemma set_stem_of: "set (stem_of n) \<subseteq> set n"
  by (auto simp: stem_of_def dest: in_set_takeD)

lemma stem_no_slash: "CHR ''/'' \<notin> set (stem (Path s))"
  using name_Path_no_slash [of s] set_stem_of [of "name (Path s)"] by (auto simp: stem_def)

lemma Path_wav: "CHR ''/'' \<notin> set x \<Longrightarrow> Path (x @ ''.wav'') = [x @ ''.wav'']"
proof -
  assume a: "CHR ''/'' \<notin> set x"
  then have s: "split_on CHR ''/'' (x @ ''.wav'') = [x @ ''.wav'']"
    by (intro split_on_absent) simp
  have ns: "\<not> startswith (x @ ''.wav'') ''/''"
    using a by (cases x) (auto simp: startswith_def)
  have ne: "x @ ''.wav'' \<noteq> ''.''" by (cases x) auto
  show ?thesis using s ns ne by (simp add: Path_def)
qed

lemma joinpath_wav: "CHR ''/'' \<notin> set x \<Longrightarrow> joinpath r (x @ ''.wav'') = r @ [x @ ''.wav'']"
proof -
  assume a: "CHR ''/'' \<notin> set x"
  have ns: "\<not> startswith (x @ ''.wav'') ''/''"
    using a by (cases x) (auto simp: startswith_def)
  show ?thesis using ns Path_wav [OF a] by (simp add: joinpath_def)
qed

lemma name_wavname: "name (wavname_of wav_root token) = stem (Path token) @ ''.wav''"
proof -
  have "wavname_of wav_root token = wav_root @ [stem (Path token) @ ''.wav'']"
    by (simp add: wavname_of_def joinpath_wav [OF stem_no_slash])
  then show ?thesis by (auto simp: name_def)
qed

lemma label_of_eq:
  "label_of mapping wav_root token =
     (case mapping (stem (Path token) @ ''.wav'') of None \<Rightarrow> ''unknown'' | Some d \<Rightarrow> d)"
  by (simp add: label_of_def name_wavname)

lemma joinpath_unknown: "joinpath r ''unknown'' = r @ [''unknown'']"
  by (simp add: joinpath_def startswith_def Path_def)

section \<open>Properties of the extraction step\<close>

text \<open>
  What the inner loop does for a \<^verbatim>\<open>.wem\<close> file that is not skipped, given the exit status
  \<open>rc\<close> of the Decoder and the file tree \<open>t\<close> that it leaves.
\<close>

lemma process_file_wem:
  assumes ext: "lower (suffix (Path file)) = ''.wem''"
    and noskip: "\<not> exists (fs s) (wav_path_of temp_wem_root file)"
                "\<not> exists (fs s) (final_out_path_of input_root folder_path file)"
    and dec: "dec (length (decoder_calls s)) (fs s) (wav_path_of temp_wem_root file)
                (wem_path_of folder_path file) = (rc, t)"
  shows "process_file dec input_root temp_wem_root folder_path file (m, s) =
           (m(wav_name_of file \<mapsto> digit_folder_of input_root folder_path),
            if rc = 0 \<and> exists t (wav_path_of temp_wem_root file)
            then s\<lparr>fs := t, converted_count := converted_count s + 1,
                   main_log := main_log s @ [Converting (wem_path_of folder_path file)
                                               (wav_path_of temp_wem_root file),
                                             Converted (wem_path_of folder_path file)],
                   decoder_calls := decoder_calls s @
                     [(wav_path_of temp_wem_root file, wem_path_of folder_path file)]\<rparr>
            else s\<lparr>fs := t, failed_count := failed_count s + 1,
                   failed_log := map_option (\<lambda>l. l @ [str_path (wem_path_of folder_path file)])
                                   (failed_log s),
                   main_log := main_log s @ [Converting (wem_path_of folder_path file)
                                               (wav_path_of temp_wem_root file),
                                             ConversionFailed (wem_path_of folder_path file)],
                   decoder_calls := decoder_calls s @
                     [(wav_path_of temp_wem_root file, wem_path_of folder_path file)]\<rparr>)"
  using noskip ext dec
  by (simp add: process_file_def Let_def run_decoder_def logging_def failed_logger_error_def)

text \<open>
  Claim C3. For a \<^verbatim>\<open>.wem\<close> source file that is not skipped, the decode counts as a success
  (the log gains the line "Converted") exactly when the Decoder's exit status is zero and the
  output file exists afterwards. On success the converted counter grows by one and neither
  the failed counter nor the failure ledger changes; on failure the failed counter grows by
  one, the converted counter does not change, and the source path is appended to the failure
  ledger.
\<close>

theorem wem_decode_outcome:
  assumes ext: "lower (suffix (Path file)) = ''.wem''"
    and noskip: "\<not> exists (fs s) (wav_path_of temp_wem_root file)"
                "\<not> exists (fs s) (final_out_path_of input_root folder_path file)"
    and dec: "dec (length (decoder_calls s)) (fs s) (wav_path_of temp_wem_root file)
                (wem_path_of folder_path file) = (rc, t)"
    and res: "s' = snd (process_file dec input_root temp_wem_root folder_path file (m, s))"
  shows "(Converted (wem_path_of folder_path file) \<in> set (drop (length (main_log s)) (main_log s'))
            \<longleftrightarrow> rc = 0 \<and> exists t (wav_path_of temp_wem_root file))
       \<and> (rc = 0 \<and> exists t (wav_path_of temp_wem_root file) \<longrightarrow>
            converted_count s' = converted_count s + 1 \<and> failed_count s' = failed_count s \<and>
            failed_log s' = failed_log s)
       \<and> (\<not> (rc = 0 \<and> exists t (wav_path_of temp_wem_root file)) \<longrightarrow>
            failed_count s' = failed_count s + 1 \<and> converted_count s' = converted_count s \<and>
            failed_log s' =
              map_option (\<lambda>l. l @ [str_path (wem_path_of folder_path file)]) (failed_log s))"
proof -
  note eq = process_file_wem [where dec = dec and s = s and rc = rc and t = t and m = m,
      OF ext noskip dec]
  show ?thesis
  proof (cases "rc = 0 \<and> exists t (wav_path_of temp_wem_root file)")
    case True
    with eq res show ?thesis by auto
  next
    case False
    with eq res show ?thesis by auto
  qed
qed

theorem wem_decode_outcome_witness:
  "lower (suffix (Path ''1.wem'')) = ''.wem'' \<and>
   \<not> exists tree_empty_staging (wav_path_of [''out_temp'', ''wem''] ''1.wem'') \<and>
   converted_count (snd (process_file dec_ok [''txtp'', ''wem''] [''out_temp'', ''wem'']
       [''txtp'', ''wem'', ''a''] ''1.wem'' (Map.empty, fresh_state tree_empty_staging))) = 1 \<and>
   failed_count (snd (process_file dec_fail [''txtp'', ''wem''] [''out_temp'', ''wem'']
       [''txtp'', ''wem'', ''a''] ''1.wem'' (Map.empty, fresh_state tree_empty_staging))) = 1 \<and>
   failed_log (snd (process_file dec_fail [''txtp'', ''wem''] [''out_temp'', ''wem'']
       [''txtp'', ''wem'', ''a''] ''1.wem'' (Map.empty, fresh_state tree_empty_staging)))
     = Some [''txtp/wem/a/1.wem'']"
proof -
  let ?s = "fresh_state tree_empty_staging"
  let ?tw = "[''out_temp'', ''wem'']"
  let ?f = "[''txtp'', ''wem'', ''a'']"
  let ?t = "Dir [(''txtp'', Dir [(''wem'', Dir [(''a'', Dir [(''1.wem'', File ''w1''),
                                                      (''notes.txt'', File ''n'')])])]),
          (''out_temp'', Dir [(''wem'', Dir [(''1.wav'', File ''decoded:txtp/wem/a/1.wem'')])])]"
  have ext: "lower (suffix (Path ''1.wem'')) = ''.wem''" by code_simp
  have n1: "\<not> exists (fs ?s) (wav_path_of ?tw ''1.wem'')" by code_simp
  have n2: "\<not> exists (fs ?s) (final_out_path_of [''txtp'', ''wem''] ?f ''1.wem'')" by code_simp
  have d1: "dec_ok (length (decoder_calls ?s)) (fs ?s) (wav_path_of ?tw ''1.wem'')
              (wem_path_of ?f ''1.wem'') = (0, ?t)" by code_simp
  have d2: "dec_fail (length (decoder_calls ?s)) (fs ?s) (wav_path_of ?tw ''1.wem'')
              (wem_path_of ?f ''1.wem'') = (1, fs ?s)" by (simp add: dec_fail_def)
  have e1: "exists ?t (wav_path_of ?tw ''1.wem'')" by code_simp
  have c: "converted_count ?s = 0" "failed_count ?s = 0" "failed_log ?s = Some []"
    by (simp_all add: fresh_state_def)
  have p: "str_path (wem_path_of ?f ''1.wem'') = ''txtp/wem/a/1.wem''" by code_simp
  have f: "fs ?s = tree_empty_staging" by (simp add: fresh_state_def)
  from wem_decode_outcome [where dec = dec_ok and m = Map.empty, OF ext n1 n2 d1 refl] e1 c
  have a: "converted_count (snd (process_file dec_ok [''txtp'', ''wem''] ?tw ?f ''1.wem''
             (Map.empty, ?s))) = 1" by simp
  from wem_decode_outcome [where dec = dec_fail and m = Map.empty, OF ext n1 n2 d2 refl] c p
  have b: "failed_count (snd (process_file dec_fail [''txtp'', ''wem''] ?tw ?f ''1.wem''
             (Map.empty, ?s))) = 1"
     "failed_log (snd (process_file dec_fail [''txtp'', ''wem''] ?tw ?f ''1.wem''
             (Map.empty, ?s))) = Some [''txtp/wem/a/1.wem'']" by simp_all
  from ext n1 f a b show ?thesis by simp
qed

text \<open>
  Claim C6. For every traversed file, of any extension: when a \<^verbatim>\<open>.wav\<close> of the same stem
  exists in the staging folder or at \<^verbatim>\<open>out/<digit_folder>/<stem>.wav\<close>, the only changes to
  the state are that the skipped counter grows by one and that the log gains the line
  "Skipping existing WAV". The file tree and the record of Decoder invocations are as before:
  nothing is decoded and nothing is copied.
\<close>

theorem existing_wav_skipped:
  assumes "exists (fs s) (wav_path_of temp_wem_root file) \<or>
           exists (fs s) (final_out_path_of input_root folder_path file)"
  shows "snd (process_file dec input_root temp_wem_root folder_path file (m, s)) =
           s\<lparr>skipped_count := skipped_count s + 1,
             main_log := main_log s @ [SkippingExisting (wav_path_of temp_wem_root file)
                                         (final_out_path_of input_root folder_path file)]\<rparr>"
  using assms by (auto simp: process_file_def Let_def logging_def)

theorem existing_wav_skipped_witness:
  "exists (fs (fresh_state tree_staged)) (wav_path_of [''out_temp'', ''wem''] ''1.wem'') \<and>
   snd (process_file dec_ok [''txtp'', ''wem''] [''out_temp'', ''wem''] [''txtp'', ''wem'', ''a'']
          ''1.wem'' (Map.empty, fresh_state tree_staged)) =
     (fresh_state tree_staged)\<lparr>skipped_count := 1,
        main_log := [SkippingExisting [''out_temp'', ''wem'', ''1.wav''] [''out'', ''a'', ''1.wav'']]\<rparr>"
proof -
  have e: "exists (fs (fresh_state tree_staged)) (wav_path_of [''out_temp'', ''wem''] ''1.wem'')"
    by code_simp
  have p: "wav_path_of [''out_temp'', ''wem''] ''1.wem'' = [''out_temp'', ''wem'', ''1.wav'']"
    "final_out_path_of [''txtp'', ''wem''] [''txtp'', ''wem'', ''a''] ''1.wem'' = [''out'', ''a'', ''1.wav'']"
    by code_simp+
  have c: "skipped_count (fresh_state tree_staged) = 0" "main_log (fresh_state tree_staged) = []"
    by (simp_all add: fresh_state_def)
  from existing_wav_skipped [where dec = dec_ok and m = Map.empty
      and input_root = "[''txtp'', ''wem'']" and folder_path = "[''txtp'', ''wem'', ''a'']", OF disjI1, OF e]
  show ?thesis using e by (simp add: p c)
qed

text \<open>
  Every folder that the traversal yields lies at or below the input root.
\<close>

lemma walk_node_below:
  "(folder, files) \<in> set (walk_node d n) \<Longrightarrow> \<exists>ds. folder = d @ ds"
proof (induction d n arbitrary: folder files rule: walk_node.induct)
  case (1 d c)
  then show ?case by simp
next
  case (2 d es)
  from "2.prems" consider "folder = d"
    | e where "e \<in> set es" "(folder, files) \<in> set (walk_node (d @ [fst e]) (snd e))"
    by auto
  then show ?case
  proof cases
    case 1
    then show ?thesis by simp
  next
    case 2
    from "2.IH" [OF 2] obtain ds where "folder = (d @ [fst e]) @ ds" by blast
    then show ?thesis by simp
  qed
qed

text \<open>
  Claim C7. For every traversed file, the category label is \<^verbatim>\<open>root\<close> when the folder that
  holds the file is the input root itself; otherwise the folder lies strictly below the
  input root and the label is the name of that folder, the file's immediate parent.
\<close>

theorem category_label:
  assumes "(folder, file) \<in> set (traversal (os_walk t input_root))"
  shows "(folder = input_root \<longrightarrow> digit_folder_of input_root folder = ''root'') \<and>
         (folder \<noteq> input_root \<longrightarrow>
            (\<exists>ds d. folder = input_root @ ds @ [d]) \<and>
            digit_folder_of input_root folder = name folder)"
proof -
  from assms obtain files where "(folder, files) \<in> set (os_walk t input_root)"
    by (auto simp: traversal_def)
  then obtain ds where ds: "folder = input_root @ ds"
    by (auto simp: os_walk_def split: option.splits dest: walk_node_below)
  have "folder \<noteq> input_root \<Longrightarrow> \<exists>ds' d. folder = input_root @ ds' @ [d]"
  proof -
    assume "folder \<noteq> input_root"
    with ds have "ds \<noteq> []" by auto
    then obtain ds' d where "ds = ds' @ [d]" by (metis rev_exhaust)
    with ds show ?thesis by blast
  qed
  then show ?thesis by (auto simp: digit_folder_of_def)
qed

theorem category_label_witness:
  "([''txtp'', ''wem'', ''a''], ''1.wem'') \<in> set (traversal (os_walk tree0 [''txtp'', ''wem''])) \<and>
   digit_folder_of [''txtp'', ''wem''] [''txtp'', ''wem'', ''a''] = ''a'' \<and>
   ([''txtp''], ''x.txtp'') \<in> set (traversal (os_walk tree0 [''txtp''])) \<and>
   digit_folder_of [''txtp''] [''txtp''] = ''root''"
proof -
  have a: "([''txtp'', ''wem'', ''a''], ''1.wem'') \<in> set (traversal (os_walk tree0 [''txtp'', ''wem'']))"
    by code_simp
  have b: "([''txtp''], ''x.txtp'') \<in> set (traversal (os_walk tree0 [''txtp'']))" by code_simp
  have n: "name [''txtp'', ''wem'', ''a''] = ''a''" by (simp add: name_def)
  from category_label [OF a] category_label [OF b] a b n show ?thesis by simp
qed

text \<open>The folder mapping that the loop builds: each file sets the entry of its own name.\<close>

lemma fst_process_file:
  "fst (process_file dec r tw folder file ms) =
     (fst ms)(wav_name_of file \<mapsto> digit_folder_of r folder)"
  by (cases ms) (simp add: process_file_def Let_def split: prod.splits option.splits)

lemma process_all_append:
  "process_all dec r tw (xs @ ys) ms = process_all dec r tw ys (process_all dec r tw xs ms)"
  by (induction dec r tw xs ms rule: process_all.induct) simp_all

lemma process_all_other_keys:
  "\<forall>(f, n) \<in> set zs. wav_name_of n \<noteq> k \<Longrightarrow>
   fst (process_all dec r tw zs ms) k = fst ms k"
  by (induction dec r tw zs ms rule: process_all.induct) (auto simp: fst_process_file)

lemma process_all_last_wins:
  assumes "\<forall>(f, n) \<in> set zs. wav_name_of n \<noteq> wav_name_of file"
  shows "fst (process_all dec r tw (xs @ (folder, file) # zs) ms) (wav_name_of file) =
           Some (digit_folder_of r folder)"
  using assms by (simp add: process_all_append process_all_other_keys fst_process_file)

text \<open>
  Claim C9. When two traversed files of different folders share their stem, and no file
  traversed after the second has that stem, the folder mapping that \<^verbatim>\<open>wem_to_wav\<close> returns
  has for \<^verbatim>\<open><stem>.wav\<close> the label of the second file. When the two labels differ, the label
  of the first file is not the one recorded: it is lost.
\<close>

theorem shared_stem_last_wins:
  assumes clean: "clean_temp (joinpath temp_root ''wem'') (fs s) = Some t2"
    and trav: "traversal (os_walk t2 input_root) =
                 xs @ (folder1, file1) # ys @ (folder2, file2) # zs"
    and same: "stem (Path file1) = stem (Path file2)"
    and differ: "folder1 \<noteq> folder2"
    and final: "\<forall>(f, n) \<in> set zs. stem (Path n) \<noteq> stem (Path file2)"
  shows "\<exists>mapping s'.
           wem_to_wav dec input_root temp_root s = Inr (mapping, s') \<and>
           mapping (stem (Path file2) @ ''.wav'') = Some (digit_folder_of input_root folder2) \<and>
           (digit_folder_of input_root folder1 \<noteq> digit_folder_of input_root folder2 \<longrightarrow>
              mapping (stem (Path file1) @ ''.wav'') \<noteq> Some (digit_folder_of input_root folder1))"
proof -
  let ?tw = "joinpath temp_root ''wem''"
  let ?r = "process_all dec input_root ?tw (traversal (os_walk t2 input_root))
              (Map.empty, s\<lparr>fs := t2\<rparr>)"
  have run: "wem_to_wav dec input_root temp_root s = Inr ?r"
    using clean by (simp add: wem_to_wav_def Let_def)
  from final have fin: "\<forall>(f, n) \<in> set zs. wav_name_of n \<noteq> wav_name_of file2"
    by (auto simp: wav_name_of_def)
  have "traversal (os_walk t2 input_root) = (xs @ (folder1, file1) # ys) @ (folder2, file2) # zs"
    using trav by simp
  then have key: "fst ?r (wav_name_of file2) = Some (digit_folder_of input_root folder2)"
    using process_all_last_wins [OF fin, of dec input_root ?tw "xs @ (folder1, file1) # ys" folder2]
    by simp
  then have k2: "fst ?r (stem (Path file2) @ ''.wav'') = Some (digit_folder_of input_root folder2)"
    by (simp add: wav_name_of_def)
  have r: "wem_to_wav dec input_root temp_root s = Inr (fst ?r, snd ?r)"
    using run by simp
  from k2 same have k1: "digit_folder_of input_root folder1 \<noteq> digit_folder_of input_root folder2 \<longrightarrow>
      fst ?r (stem (Path file1) @ ''.wav'') \<noteq> Some (digit_folder_of input_root folder1)"
    by simp
  from r k2 k1 show ?thesis by blast
qed

theorem shared_stem_last_wins_witness:
  "stem (Path ''1.wem'') = ''1'' \<and>
   [''txtp'', ''wem'', ''a''] \<noteq> [''txtp'', ''wem'', ''b''] \<and>
   (\<exists>mapping s'.
      wem_to_wav dec_ok [''txtp'', ''wem''] [''out_temp''] (fresh_state tree_shared_stem)
        = Inr (mapping, s') \<and>
      mapping ''1.wav'' = Some ''b'' \<and> mapping ''1.wav'' \<noteq> Some ''a'')"
proof -
  let ?t2 = "Dir [(''txtp'', Dir [(''wem'', Dir [(''a'', Dir [(''1.wem'', File ''wa'')]),
                                         (''b'', Dir [(''1.wem'', File ''wb'')])])]),
                  (''out_temp'', Dir [(''wem'', Dir [])])]"
  have clean: "clean_temp (joinpath [''out_temp''] ''wem'') (fs (fresh_state tree_shared_stem))
                 = Some ?t2" by code_simp
  have trav: "traversal (os_walk ?t2 [''txtp'', ''wem'']) =
       [] @ ([''txtp'', ''wem'', ''a''], ''1.wem'') # [] @ ([''txtp'', ''wem'', ''b''], ''1.wem'') # []"
    by code_simp
  have st: "stem (Path ''1.wem'') = ''1''" by code_simp
  have d: "digit_folder_of [''txtp'', ''wem''] [''txtp'', ''wem'', ''a''] = ''a''"
    "digit_folder_of [''txtp'', ''wem''] [''txtp'', ''wem'', ''b''] = ''b''" by code_simp+
  have differ: "[''txtp'', ''wem'', ''a''] \<noteq> [''txtp'', ''wem'', ''b'']" by simp
  have final: "\<forall>(f, n) \<in> set []. stem (Path n) \<noteq> stem (Path ''1.wem'')" by simp
  from shared_stem_last_wins [where dec = dec_ok, OF clean trav refl differ final]
  show ?thesis using differ by (simp add: st d)
qed

text \<open>
  Claim C8, as the code has it. The claim that a file of another extension leaves the state
  of the run unchanged and contributes no entry to the folder mapping fails: the assignment
  to the mapping and the test for an existing \<^verbatim>\<open>.wav\<close> come before the test of the
  extension. The file \<^verbatim>\<open>notes.txt\<close> of folder \<^verbatim>\<open>a\<close> adds the entry of \<^verbatim>\<open>notes.wav\<close>, and
  the file \<^verbatim>\<open>1.txt\<close> is counted as skipped when \<^verbatim>\<open>1.wav\<close> is staged.
\<close>

theorem other_extension_adds_mapping_entry:
  "lower (suffix (Path ''notes.txt'')) \<noteq> ''.wem'' \<and>
   lower (suffix (Path ''notes.txt'')) \<noteq> ''.wav'' \<and>
   (Map.empty :: string \<rightharpoonup> string) ''notes.wav'' = None \<and>
   fst (process_file dec_ok [''txtp'', ''wem''] [''out_temp'', ''wem''] [''txtp'', ''wem'', ''a'']
          ''notes.txt'' (Map.empty, fresh_state tree_empty_staging)) ''notes.wav'' = Some ''a'' \<and>
   lower (suffix (Path ''1.txt'')) = ''.txt'' \<and>
   skipped_count (fresh_state tree_staged) = 0 \<and>
   skipped_count (snd (process_file dec_ok [''txtp'', ''wem''] [''out_temp'', ''wem'']
          [''txtp'', ''wem'', ''a''] ''1.txt'' (Map.empty, fresh_state tree_staged))) = 1"
  by code_simp

text \<open>
  Claim C8, amended. A traversed file whose extension is neither \<^verbatim>\<open>.wem\<close> nor \<^verbatim>\<open>.wav\<close> is
  neither decoded nor copied, and the converted counter, the failed counter, the failure
  ledger and the file tree are as before. It does set the entry of \<^verbatim>\<open><stem>.wav\<close> in the
  folder mapping to its category label; and when a \<^verbatim>\<open>.wav\<close> of the same stem exists in the
  staging folder or at \<^verbatim>\<open>out/<digit_folder>/<stem>.wav\<close>, the skipped counter grows by one
  and the skip is logged. Otherwise the state is unchanged.
\<close>

theorem other_extension_effect:
  assumes "lower (suffix (Path file)) \<noteq> ''.wem''" "lower (suffix (Path file)) \<noteq> ''.wav''"
  shows "process_file dec input_root temp_wem_root folder_path file (m, s) =
           (m(wav_name_of file \<mapsto> digit_folder_of input_root folder_path),
            if exists (fs s) (wav_path_of temp_wem_root file) \<or>
               exists (fs s) (final_out_path_of input_root folder_path file)
            then s\<lparr>skipped_count := skipped_count s + 1,
                   main_log := main_log s @ [SkippingExisting (wav_path_of temp_wem_root file)
                                         (final_out_path_of input_root folder_path file)]\<rparr>
            else s)"
  using assms by (auto simp: process_file_def Let_def logging_def)

theorem other_extension_effect_witness:
  "lower (suffix (Path ''notes.txt'')) \<noteq> ''.wem'' \<and>
   lower (suffix (Path ''notes.txt'')) \<noteq> ''.wav'' \<and>
   process_file dec_ok [''txtp'', ''wem''] [''out_temp'', ''wem''] [''txtp'', ''wem'', ''a'']
          ''notes.txt'' (Map.empty, fresh_state tree_empty_staging) =
     ([''notes.wav'' \<mapsto> ''a''], fresh_state tree_empty_staging)"
proof -
  have x: "lower (suffix (Path ''notes.txt'')) \<noteq> ''.wem''"
          "lower (suffix (Path ''notes.txt'')) \<noteq> ''.wav''" by code_simp+
  have n: "\<not> exists (fs (fresh_state tree_empty_staging)) (wav_path_of [''out_temp'', ''wem''] ''notes.txt'')"
     "\<not> exists (fs (fresh_state tree_empty_staging))
          (final_out_path_of [''txtp'', ''wem''] [''txtp'', ''wem'', ''a''] ''notes.txt'')" by code_simp+
  have p: "wav_name_of ''notes.txt'' = ''notes.wav''"
     "digit_folder_of [''txtp'', ''wem''] [''txtp'', ''wem'', ''a''] = ''a''" by code_simp+
  from other_extension_effect [where dec = dec_ok, OF x] show ?thesis using x n by (simp add: p)
qed

section \<open>Properties of the renaming step\<close>

text \<open>The loop over the tokens counts every token, whatever its prefix.\<close>

lemma convert_tokens_append:
  "convert_tokens f w out m k (xs @ ys) s =
     (case convert_tokens f w out m k xs s of
        Inl e \<Rightarrow> Inl e
      | Inr s1 \<Rightarrow> convert_tokens f w out m (k + length xs) ys s1)"
  by (induction xs arbitrary: k s) (auto split: sum.splits)

text \<open>
  Claim C2. Let the reference file be readable and let \<open>token\<close> be a token of its token
  stream that starts with \<^verbatim>\<open>wem\<close>, with the tokens \<open>xs\<close> before it. Then \<^verbatim>\<open>convert\<close> handles
  the tokens before it, relocates the staged file \<^verbatim>\<open><wav_root>/<token stem>.wav\<close> to the
  destination \<^verbatim>\<open><out_root>/<label>/<S>_<i>.wav\<close>, and goes on with the tokens behind it.
  Here the label is the folder mapping's entry for \<^verbatim>\<open><token stem>.wav\<close> (\<^verbatim>\<open>unknown\<close> when
  there is none), \<open>S\<close> is the reference file's name up to its first dot, and \<open>i\<close> is the
  number of all the tokens before this one.
\<close>

theorem renamer_destination:
  assumes rd: "read_text (fs s) (joinpath (Path ''txtp'') filename) = Some data"
    and tk: "tokens_of data = xs @ token # ys"
    and wem: "startswith token ''wem''"
  shows "convert filename wav_root out_root mapping s =
     (let label = (case mapping (stem (Path token) @ ''.wav'') of
                     None \<Rightarrow> ''unknown'' | Some d \<Rightarrow> d);
          S = takeWhile (\<lambda>c. c \<noteq> CHR ''.'') filename;
          i = length xs
      in case convert_tokens filename wav_root out_root mapping 0 xs s of
           Inl e \<Rightarrow> Inl e
         | Inr s1 \<Rightarrow>
             (case relocate (wav_root @ [stem (Path token) @ ''.wav''])
                     (joinpath out_root label)
                     (joinpath (joinpath out_root label) (S @ ''_'' @ str_nat i @ ''.wav'')) s1 of
                Inl e \<Rightarrow> Inl e
              | Inr s2 \<Rightarrow> convert_tokens filename wav_root out_root mapping (Suc i) ys s2))"
proof -
  have w: "wavname_of wav_root token = wav_root @ [stem (Path token) @ ''.wav'']"
    by (simp add: wavname_of_def joinpath_wav [OF stem_no_slash])
  have step: "convert_token filename wav_root out_root mapping i token s1 =
      relocate (wav_root @ [stem (Path token) @ ''.wav''])
        (joinpath out_root (case mapping (stem (Path token) @ ''.wav'') of
                     None \<Rightarrow> ''unknown'' | Some d \<Rightarrow> d))
        (joinpath (joinpath out_root (case mapping (stem (Path token) @ ''.wav'') of
                     None \<Rightarrow> ''unknown'' | Some d \<Rightarrow> d))
           (takeWhile (\<lambda>c. c \<noteq> CHR ''.'') filename @ ''_'' @ str_nat i @ ''.wav'')) s1" for i s1
    using wem
    by (simp add: convert_token_def new_name_of_def out_folder_of_def label_of_eq w
        first_field_takeWhile)
  show ?thesis
    using rd tk
    by (simp add: convert_def Let_def convert_tokens_append step split: sum.splits)
qed

theorem renamer_destination_witness:
  "read_text (fs (fresh_state tree_renaming)) (joinpath (Path ''txtp'') ''x.txtp'') = Some ''a wem/1.wem'' \<and>
   tokens_of ''a wem/1.wem'' = [''a''] @ ''wem/1.wem'' # [] \<and>
   startswith ''wem/1.wem'' ''wem'' \<and>
   map_sum id fs (convert ''x.txtp'' [''out_temp'', ''wem''] [''out''] [''1.wav'' \<mapsto> ''a'']
                    (fresh_state tree_renaming)) =
     Inr (Dir [(''txtp'', Dir [(''wem'', Dir [(''a'', Dir [(''1.wem'', File ''w1'')])]),
                          (''x.txtp'', File ''a wem/1.wem'')]),
          (''out_temp'', Dir [(''wem'', Dir [])]),
          (''out'', Dir [(''a'', Dir [(''x_1.wav'', File ''d1'')])])])"
proof -
  have rd: "read_text (fs (fresh_state tree_renaming)) (joinpath (Path ''txtp'') ''x.txtp'')
              = Some ''a wem/1.wem''" by code_simp
  have tk: "tokens_of ''a wem/1.wem'' = [''a''] @ ''wem/1.wem'' # []" by code_simp
  have wem: "startswith ''wem/1.wem'' ''wem''" by code_simp
  note eq = renamer_destination [OF rd tk wem, of "[''out_temp'', ''wem'']" "[''out'']"
      "[''1.wav'' \<mapsto> ''a'']"]
  have "map_sum id fs (convert ''x.txtp'' [''out_temp'', ''wem''] [''out''] [''1.wav'' \<mapsto> ''a'']
                    (fresh_state tree_renaming)) =
     Inr (Dir [(''txtp'', Dir [(''wem'', Dir [(''a'', Dir [(''1.wem'', File ''w1'')])]),
                          (''x.txtp'', File ''a wem/1.wem'')]),
          (''out_temp'', Dir [(''wem'', Dir [])]),
          (''out'', Dir [(''a'', Dir [(''x_1.wav'', File ''d1'')])])])"
    unfolding eq by code_simp
  with rd tk wem show ?thesis by simp
qed

text \<open>
  Claim C5. For a token that starts with \<^verbatim>\<open>wem\<close> and whose staged file name has no entry
  in the folder mapping, the label is \<^verbatim>\<open>unknown\<close> and the destination lies in
  \<^verbatim>\<open><out_root>/unknown\<close>. The missing entry raises nothing: the step ends normally whenever
  that folder can be made.
\<close>

theorem unknown_fallback:
  assumes wem: "startswith token ''wem''"
    and miss: "mapping (stem (Path token) @ ''.wav'') = None"
  shows "label_of mapping wav_root token = ''unknown'' \<and>
         convert_token filename wav_root out_root mapping i token s =
           relocate (wav_root @ [stem (Path token) @ ''.wav'']) (out_root @ [''unknown''])
             (joinpath (out_root @ [''unknown''])
                (takeWhile (\<lambda>c. c \<noteq> CHR ''.'') filename @ ''_'' @ str_nat i @ ''.wav'')) s \<and>
         (mkdir_p (out_root @ [''unknown'']) (fs s) \<noteq> None \<longrightarrow>
            (\<exists>s'. convert_token filename wav_root out_root mapping i token s = Inr s'))"
proof -
  have w: "wavname_of wav_root token = wav_root @ [stem (Path token) @ ''.wav'']"
    by (simp add: wavname_of_def joinpath_wav [OF stem_no_slash])
  have l: "label_of mapping wav_root token = ''unknown''"
    using miss by (simp add: label_of_eq)
  have c: "convert_token filename wav_root out_root mapping i token s =
           relocate (wav_root @ [stem (Path token) @ ''.wav'']) (out_root @ [''unknown''])
             (joinpath (out_root @ [''unknown''])
                (takeWhile (\<lambda>c. c \<noteq> CHR ''.'') filename @ ''_'' @ str_nat i @ ''.wav'')) s"
    using wem
    by (simp add: convert_token_def new_name_of_def out_folder_of_def l w joinpath_unknown
        first_field_takeWhile)
  have r: "mkdir_p (out_root @ [''unknown'']) (fs s) \<noteq> None \<Longrightarrow>
           \<exists>s'. relocate a (out_root @ [''unknown'']) b s = Inr s'" for a b
    by (auto simp: relocate_def Let_def split: option.splits)
  from l c r show ?thesis by simp
qed

theorem unknown_fallback_witness:
  "startswith ''wem/9.wem'' ''wem'' \<and>
   (Map.empty :: string \<rightharpoonup> string) (stem (Path ''wem/9.wem'') @ ''.wav'') = None \<and>
   label_of Map.empty [''out_temp'', ''wem''] ''wem/9.wem'' = ''unknown'' \<and>
   (\<exists>s'. convert_token ''x.txtp'' [''out_temp'', ''wem''] [''out''] Map.empty 0 ''wem/9.wem''
           (fresh_state tree_renaming) = Inr s')"
proof -
  have wem: "startswith ''wem/9.wem'' ''wem''" by code_simp
  have miss: "(Map.empty :: string \<rightharpoonup> string) (stem (Path ''wem/9.wem'') @ ''.wav'') = None" by simp
  have mk: "mkdir_p ([''out''] @ [''unknown'']) (fs (fresh_state tree_renaming)) \<noteq> None" by code_simp
  note u = unknown_fallback [OF wem miss, of "[''out_temp'', ''wem'']" "''x.txtp''" "[''out'']" 0
      "fresh_state tree_renaming"]
  from u have l: "label_of Map.empty [''out_temp'', ''wem''] ''wem/9.wem'' = ''unknown''"
    by (rule conjunct1)
  from u mk have e: "\<exists>s'. convert_token ''x.txtp'' [''out_temp'', ''wem''] [''out''] Map.empty 0
      ''wem/9.wem'' (fresh_state tree_renaming) = Inr s'"
    by blast
  from wem miss l e show ?thesis by blast
qed

section \<open>Properties of the retry pass\<close>

text \<open>
  An entry whose staged file is absent is decoded again. It is reported as converted on
  retry exactly when the Decoder's exit status is zero and the output file exists;
  otherwise it is reported as failed a second time and written back to the ledger. What
  the retry loop adds to the log thus accounts for the tally of new failures, for the lines
  written to the ledger and for the growth of the converted counter.
\<close>

lemma retry_entry_decode:
  assumes absent: "\<not> exists (fs s) (retry_wav_path r e)"
    and dec: "dec (length (decoder_calls s)) (fs s) (retry_wav_path r e) (Path e) = (rc, t)"
  shows "retry_entry dec r e (s, nf) =
           (if rc = 0 \<and> exists t (retry_wav_path r e)
            then (s\<lparr>fs := t, converted_count := converted_count s + 1,
                    main_log := main_log s @ [Retrying (Path e) (retry_wav_path r e),
                                              ConvertedOnRetry (Path e)],
                    decoder_calls := decoder_calls s @ [(retry_wav_path r e, Path e)]\<rparr>, nf)
            else (s\<lparr>fs := t,
                    failed_log := map_option (\<lambda>l. l @ [str_path (Path e)]) (failed_log s),
                    main_log := main_log s @ [Retrying (Path e) (retry_wav_path r e),
                                              FailedSecondTime (Path e)],
                    decoder_calls := decoder_calls s @ [(retry_wav_path r e, Path e)]\<rparr>, nf + 1))"
  using absent dec
  by (simp add: retry_entry_def Let_def run_decoder_def logging_def failed_logger_error_def)

lemma failed_again_append [simp]: "failed_again (xs @ ys) = failed_again xs @ failed_again ys"
  by (simp add: failed_again_def)

lemma converted_on_retry_append [simp]:
  "converted_on_retry (xs @ ys) = converted_on_retry xs @ converted_on_retry ys"
  by (simp add: converted_on_retry_def)








section \<open>Properties of a whole run\<close>

text \<open>
  Claim C1, evaluated. The first run over \<open>tree0\<close> decodes \<^verbatim>\<open>txtp/wem/a/1.wem\<close> and leaves
  \<open>tree1\<close>, where the asset is at \<^verbatim>\<open>out/a/x_0.wav\<close>. The second run, over \<open>tree1\<close>, leaves
  the same tree, but it invokes the Decoder on the asset once more and counts it as
  converted, not as skipped: the extraction step looks for \<^verbatim>\<open>out/a/1.wav\<close>, a name that the
  renaming step never gives to a file.
\<close>

theorem second_run_decodes_again:
  "map_sum id fs (main dec_ok True tree0) = Inr tree1 \<and>
   map_sum id fs (main dec_ok True tree1) = Inr tree1 \<and>
   map_sum id decoder_calls (main dec_ok True tree1) =
     Inr [([''out_temp'', ''wem'', ''1.wav''], [''txtp'', ''wem'', ''a'', ''1.wem''])] \<and>
   map_sum id converted_count (main dec_ok True tree1) = Inr 1 \<and>
   map_sum id skipped_count (main dec_ok True tree1) = Inr 0"
  by code_simp

end
